theory Spec2Isabelle
  imports Complex_Main "HOL-Library.Sublist" "HOL-Library.AList"
begin

section \<open>Python values used by the platform code\<close>

text \<open>
  Exceptions of the Python code are values: a computation that may raise has the type
  \<open>py_error + 'a\<close>, with \<open>Inl\<close> for the raised exception.
\<close>

datatype py_error = ValueError | AttributeError | TypeError | KeyError | RuntimeError

text \<open>
  A Python \<open>str\<close> is modelled as a \<open>string\<close>; one \<open>char\<close> stands for one code point
  below 256. \<open>py_isspace\<close> is \<open>str.isspace\<close> on one character, which is also what the
  regular-expression class \<open>\s\<close> matches; \<open>py_isword\<close> is the class \<open>\w\<close>.
\<close>

definition py_isspace :: "char \<Rightarrow> bool" where
  "py_isspace c =
     (let n = (of_char c :: nat)
      in (9 \<le> n \<and> n \<le> 13) \<or> (28 \<le> n \<and> n \<le> 32) \<or> n = 133 \<or> n = 160)"

definition py_isword :: "char \<Rightarrow> bool" where
  "py_isword c =
     (let n = (of_char c :: nat)
      in (48 \<le> n \<and> n \<le> 57) \<or> (65 \<le> n \<and> n \<le> 90) \<or> n = 95 \<or> (97 \<le> n \<and> n \<le> 122)
         \<or> n = 170 \<or> n = 178 \<or> n = 179 \<or> n = 181 \<or> n = 185 \<or> n = 186
         \<or> (188 \<le> n \<and> n \<le> 190) \<or> (192 \<le> n \<and> n \<le> 214) \<or> (216 \<le> n \<and> n \<le> 246)
         \<or> 248 \<le> n)"

definition is_upper_az :: "char \<Rightarrow> bool" where
  "is_upper_az c = (let n = (of_char c :: nat) in 65 \<le> n \<and> n \<le> 90)"

definition is_lower_az :: "char \<Rightarrow> bool" where
  "is_lower_az c = (let n = (of_char c :: nat) in 97 \<le> n \<and> n \<le> 122)"

definition newline :: char where
  "newline = CHR 0x0A"

text \<open>\<open>s.strip()\<close>: leading and trailing whitespace removed.\<close>

definition py_strip :: "string \<Rightarrow> string" where
  "py_strip s = rev (dropWhile py_isspace (rev (dropWhile py_isspace s)))"

text \<open>
  Slices. \<open>py_index n i\<close> is the position a slice bound \<open>i\<close> denotes in a sequence of
  length \<open>n\<close>: a negative bound counts from the end, and every bound is clamped to the
  sequence. \<open>py_slice xs i j\<close> is \<open>xs[i:j]\<close> and \<open>py_slice_from xs i\<close> is \<open>xs[i:]\<close>.
\<close>

definition py_index :: "nat \<Rightarrow> int \<Rightarrow> nat" where
  "py_index n i = (if i < 0 then nat (max 0 (int n + i)) else min n (nat i))"

definition py_slice :: "'a list \<Rightarrow> int \<Rightarrow> int \<Rightarrow> 'a list" where
  "py_slice xs i j =
     (let a = py_index (length xs) i; b = py_index (length xs) j
      in take (b - a) (drop a xs))"

definition py_slice_from :: "'a list \<Rightarrow> int \<Rightarrow> 'a list" where
  "py_slice_from xs i = drop (py_index (length xs) i) xs"

text \<open>
  \<open>range(start, stop, step)\<close>: a zero step raises \<open>ValueError\<close>; a positive step counts up
  while below \<open>stop\<close>, a negative one counts down while above it.
\<close>

function range_up :: "int \<Rightarrow> int \<Rightarrow> int \<Rightarrow> int list" where
  "range_up i stop step =
     (if 0 < step \<and> i < stop then i # range_up (i + step) stop step else [])"
  by pat_completeness auto
termination
  by (relation "measure (\<lambda>(i, stop, step). nat (stop - i))") auto

function range_down :: "int \<Rightarrow> int \<Rightarrow> int \<Rightarrow> int list" where
  "range_down i stop step =
     (if step < 0 \<and> stop < i then i # range_down (i + step) stop step else [])"
  by pat_completeness auto
termination
  by (relation "measure (\<lambda>(i, stop, step). nat (i - stop))") auto

definition py_range :: "int \<Rightarrow> int \<Rightarrow> int \<Rightarrow> py_error + int list" where
  "py_range start stop step =
     (if step = 0 then Inl ValueError
      else if 0 < step then Inr (range_up start stop step)
      else Inr (range_down start stop step))"

text \<open>
  Floating-point numbers. A \<open>float\<close> is modelled by the rational number it stands for,
  and every floating-point operation by the exact operation followed by
  \<open>float_round\<close>, the rounding to the nearest number with a 53-bit significand, ties to
  the even significand (for magnitudes in the normal range of a double, which all
  values of the platform code are in). A float literal such as \<open>0.9\<close> is
  \<open>float_round (9 / 10)\<close>.
\<close>

function bit_length :: "int \<Rightarrow> nat" where
  "bit_length n = (if n \<le> 0 then 0 else Suc (bit_length (n div 2)))"
  by pat_completeness auto
termination
  by (relation "measure nat") auto

text \<open>\<open>floor_log2 a\<close> is the integer \<open>k\<close> with \<open>2 ^ k \<le> a < 2 ^ (k + 1)\<close>, for \<open>a > 0\<close>.\<close>

definition floor_log2 :: "rat \<Rightarrow> int" where
  "floor_log2 a =
     (if 1 \<le> a then int (bit_length \<lfloor>a\<rfloor>) - 1
      else - int (bit_length (\<lceil>1 / a\<rceil> - 1)))"

definition pow2 :: "int \<Rightarrow> rat" where
  "pow2 e = (if 0 \<le> e then 2 ^ nat e else 1 / 2 ^ nat (- e))"

definition round_half_even :: "rat \<Rightarrow> int" where
  "round_half_even x =
     (let f = \<lfloor>x\<rfloor>; d = x - of_int f
      in if d < 1 / 2 then f
         else if 1 / 2 < d then f + 1
         else if even f then f else f + 1)"

definition float_round :: "rat \<Rightarrow> rat" where
  "float_round x =
     (if x = 0 then 0
      else (let a = \<bar>x\<bar>;
                e = floor_log2 a - 52;
                m = round_half_even (a / pow2 e)
            in sgn x * of_int m * pow2 e))"

section \<open>Chunking service\<close>

datatype ChunkStrategy = FIXED_SIZE | SENTENCE | PARAGRAPH | SEMANTIC

subsection \<open>Fixed-size chunks\<close>

text \<open>The body of the \<open>for i in range(0, len(text), step_size)\<close> loop, over the indices.\<close>

fun fixed_size_loop :: "string \<Rightarrow> int \<Rightarrow> int list \<Rightarrow> string list \<Rightarrow> string list" where
  "fixed_size_loop text chunk_size [] chunks = chunks"
| "fixed_size_loop text chunk_size (i # is) chunks =
     (let chunk = py_slice text i (i + chunk_size)
      in fixed_size_loop text chunk_size is
           (if py_strip chunk \<noteq> [] then chunks @ [chunk] else chunks))"

definition fixed_step_size :: "int \<Rightarrow> int \<Rightarrow> int" where
  "fixed_step_size chunk_size chunk_overlap =
     (let step_size = chunk_size - chunk_overlap
      in if step_size \<le> 0 then chunk_size else step_size)"

definition chunk_by_fixed_size :: "string \<Rightarrow> int \<Rightarrow> int \<Rightarrow> py_error + string list" where
  "chunk_by_fixed_size text chunk_size chunk_overlap =
     (case py_range 0 (int (length text)) (fixed_step_size chunk_size chunk_overlap) of
        Inl e \<Rightarrow> Inl e
      | Inr is \<Rightarrow> Inr (fixed_size_loop text chunk_size is []))"

subsection \<open>Regular-expression matching\<close>

text \<open>
  The three patterns of the service are given as matchers: a matcher receives the text
  before the position (most recent character first) and the text from the position on,
  and returns the length of the match starting there, if there is one. None of the
  patterns matches the empty string. \<open>re_spans\<close> scans from the left and collects the
  non-overlapping matches as (start, end) pairs, as \<open>re.finditer\<close> does.
\<close>

type_synonym matcher = "string \<Rightarrow> string \<Rightarrow> nat option"

function re_spans :: "matcher \<Rightarrow> string \<Rightarrow> nat \<Rightarrow> string \<Rightarrow> (nat \<times> nat) list" where
  "re_spans m prev pos [] = []"
| "re_spans m prev pos (c # cs) =
     (case m prev (c # cs) of
        Some (Suc k) \<Rightarrow>
          (pos, pos + Suc k) #
            re_spans m (rev (take k cs) @ c # prev) (pos + Suc k) (drop k cs)
      | _ \<Rightarrow> re_spans m (c # prev) (Suc pos) cs)"
  by pat_completeness auto
termination
  by (relation "measure (\<lambda>(m, prev, pos, rest). length rest)") auto

text \<open>\<open>re.split\<close>: the pieces of the text between the matches.\<close>

fun split_at_spans :: "string \<Rightarrow> nat \<Rightarrow> (nat \<times> nat) list \<Rightarrow> string list" where
  "split_at_spans text pos [] = [drop pos text]"
| "split_at_spans text pos ((s, e) # spans) =
     take (s - pos) (drop pos text) # split_at_spans text e spans"

definition re_split :: "matcher \<Rightarrow> string \<Rightarrow> string list" where
  "re_split m text = split_at_spans text 0 (re_spans m [] 0 text)"

text \<open>\<open>re.sub\<close>: every match replaced by a function of the matched text.\<close>

fun sub_at_spans :: "(string \<Rightarrow> string) \<Rightarrow> string \<Rightarrow> nat \<Rightarrow> (nat \<times> nat) list \<Rightarrow> string" where
  "sub_at_spans repl text pos [] = drop pos text"
| "sub_at_spans repl text pos ((s, e) # spans) =
     take (s - pos) (drop pos text) @ repl (take (e - s) (drop s text))
       @ sub_at_spans repl text e spans"

definition re_sub :: "matcher \<Rightarrow> (string \<Rightarrow> string) \<Rightarrow> string \<Rightarrow> string" where
  "re_sub m repl text = sub_at_spans repl text 0 (re_spans m [] 0 text)"

text \<open>A literal alternation \<open>(a|b|...)\<close>: the first alternative that matches wins.\<close>

definition match_literals :: "string list \<Rightarrow> matcher" where
  "match_literals alts prev rest =
     (case find (\<lambda>a. prefix a rest) alts of None \<Rightarrow> None | Some a \<Rightarrow> Some (length a))"

text \<open>
  The sentence boundary
  \<^verbatim>\<open>(?<!\w\.\w.)(?<![A-Z][a-z]\.)(?<=\.|\?|\!)\s\<close>:
  one whitespace character that follows a full stop, question mark or exclamation mark,
  unless the four characters before it match \<^verbatim>\<open>\w\.\w.\<close> (the last one being any
  character but a newline) or the three before it match \<^verbatim>\<open>[A-Z][a-z]\.\<close>.
\<close>

fun lookbehind_initials :: "string \<Rightarrow> bool" where
  "lookbehind_initials (p1 # p2 # p3 # p4 # _) =
     (p1 \<noteq> newline \<and> py_isword p2 \<and> p3 = CHR ''.'' \<and> py_isword p4)"
| "lookbehind_initials _ = False"

fun lookbehind_title :: "string \<Rightarrow> bool" where
  "lookbehind_title (p1 # p2 # p3 # _) =
     (p1 = CHR ''.'' \<and> is_lower_az p2 \<and> is_upper_az p3)"
| "lookbehind_title _ = False"

fun lookbehind_terminator :: "string \<Rightarrow> bool" where
  "lookbehind_terminator (p1 # _) = (p1 = CHR ''.'' \<or> p1 = CHR ''?'' \<or> p1 = CHR ''!'')"
| "lookbehind_terminator [] = False"

fun sentence_boundary :: matcher where
  "sentence_boundary prev (c # _) =
     (if \<not> lookbehind_initials prev \<and> \<not> lookbehind_title prev
         \<and> lookbehind_terminator prev \<and> py_isspace c
      then Some 1 else None)"
| "sentence_boundary prev [] = None"

text \<open>
  \<^verbatim>\<open>[.!?]\s+\<close>: a terminator and all the whitespace after it, at least one character.
\<close>

fun terminator_spaces :: matcher where
  "terminator_spaces prev (c # cs) =
     (if (c = CHR ''.'' \<or> c = CHR ''!'' \<or> c = CHR ''?'') \<and> takeWhile py_isspace cs \<noteq> []
      then Some (Suc (length (takeWhile py_isspace cs))) else None)"
| "terminator_spaces prev [] = None"

text \<open>
  \<^verbatim>\<open>\n\s*\n\<close>: a newline, then whitespace, then a newline. The star is greedy and
  gives characters back until a newline follows, so the match ends after the last
  newline of the run of whitespace that follows the first newline.
\<close>

fun last_newline :: "string \<Rightarrow> nat option" where
  "last_newline [] = None"
| "last_newline (c # cs) =
     (case last_newline cs of
        Some k \<Rightarrow> Some (Suc k)
      | None \<Rightarrow> if c = newline then Some 0 else None)"

fun paragraph_boundary :: matcher where
  "paragraph_boundary prev (c # cs) =
     (if c = newline
      then (case last_newline (takeWhile py_isspace cs) of
              None \<Rightarrow> None
            | Some k \<Rightarrow> Some (k + 2))
      else None)"
| "paragraph_boundary prev [] = None"

subsection \<open>Sentences and paragraphs\<close>

definition abbreviations :: "string list" where
  "abbreviations = [''Mr.'', ''Mrs.'', ''Dr.'', ''Prof.'', ''etc.'']"

definition split_into_sentences :: "string \<Rightarrow> string list" where
  "split_into_sentences text =
     (let text = re_sub (match_literals abbreviations) (\<lambda>g. g @ ''<POINT>'') text;
          sentences = re_split sentence_boundary text;
          sentences = map (re_sub (match_literals [''<POINT>'']) (\<lambda>g. ''.'')) sentences
      in filter (\<lambda>s. py_strip s \<noteq> []) sentences)"

definition split_into_paragraphs :: "string \<Rightarrow> string list" where
  "split_into_paragraphs text =
     (let paragraphs = re_split paragraph_boundary text
      in filter (\<lambda>p. py_strip p \<noteq> []) paragraphs)"

text \<open>\<open>s.split()\<close>: the maximal runs of non-whitespace characters.\<close>

function py_split_ws :: "string \<Rightarrow> string list" where
  "py_split_ws s =
     (case dropWhile py_isspace s of
        [] \<Rightarrow> []
      | c # cs \<Rightarrow> (c # takeWhile (\<lambda>x. \<not> py_isspace x) cs)
                  # py_split_ws (dropWhile (\<lambda>x. \<not> py_isspace x) cs))"
  by pat_completeness auto
termination
proof (relation "measure length")
  show "wf (measure length)" by simp
next
  fix s :: string and c cs
  assume "dropWhile py_isspace s = c # cs"
  then have "length (c # cs) \<le> length s"
    by (metis length_dropWhile_le)
  moreover have "length (dropWhile (\<lambda>x. \<not> py_isspace x) cs) \<le> length cs"
    by (rule length_dropWhile_le)
  ultimately show "(dropWhile (\<lambda>x. \<not> py_isspace x) cs, s) \<in> measure length"
    by simp
qed

text \<open>\<open>sep.join(words)\<close>.\<close>

fun py_join :: "string \<Rightarrow> string list \<Rightarrow> string" where
  "py_join sep [] = []"
| "py_join sep [w] = w"
| "py_join sep (w # ws) = w @ sep @ py_join sep ws"

subsection \<open>Sentence chunks\<close>

text \<open>
  The text a new chunk starts with after \<open>current_chunk\<close> has been emitted, for a
  positive \<open>chunk_overlap\<close>.
\<close>

definition sentence_overlap :: "string \<Rightarrow> int \<Rightarrow> string" where
  "sentence_overlap current_chunk chunk_overlap =
     (let overlap_text = py_slice_from current_chunk (- chunk_overlap);
          sentence_boundaries = re_spans terminator_spaces [] 0 overlap_text
      in if sentence_boundaries \<noteq> []
         then (let last_boundary = snd (last sentence_boundaries)
               in py_slice_from current_chunk (- chunk_overlap + int last_boundary))
         else (let words = py_split_ws overlap_text
               in if words \<noteq> []
                  then py_join '' '' (py_slice_from words (- int (min 5 (length words))))
                  else []))"

definition sentence_step :: "int \<Rightarrow> int \<Rightarrow> string list \<times> string \<Rightarrow> string \<Rightarrow> string list \<times> string" where
  "sentence_step chunk_size chunk_overlap st sentence =
     (let (chunks, current_chunk) = st;
          (chunks, current_chunk) =
            (if int (length current_chunk) + int (length sentence) > chunk_size
                \<and> current_chunk \<noteq> []
             then (chunks @ [current_chunk],
                   if chunk_overlap > 0 then sentence_overlap current_chunk chunk_overlap
                   else [])
             else (chunks, current_chunk));
          current_chunk =
            (if current_chunk \<noteq> [] \<and> \<not> suffix '' '' current_chunk
             then current_chunk @ '' '' else current_chunk)
      in (chunks, current_chunk @ sentence))"

definition chunk_by_sentence :: "string \<Rightarrow> int \<Rightarrow> int \<Rightarrow> string list" where
  "chunk_by_sentence text chunk_size chunk_overlap =
     (let sentences = split_into_sentences text;
          (chunks, current_chunk) =
            foldl (sentence_step chunk_size chunk_overlap) ([], []) sentences
      in if py_strip current_chunk \<noteq> [] then chunks @ [current_chunk] else chunks)"

subsection \<open>Paragraph chunks\<close>

definition paragraph_overlap :: "string \<Rightarrow> int \<Rightarrow> string" where
  "paragraph_overlap current_chunk chunk_overlap =
     (let overlap_text = py_slice_from current_chunk (- chunk_overlap);
          paragraph_boundaries = re_spans paragraph_boundary [] 0 overlap_text
      in if paragraph_boundaries \<noteq> []
         then (let last_boundary = snd (last paragraph_boundaries)
               in py_slice_from current_chunk (- chunk_overlap + int last_boundary))
         else (let sentences = split_into_sentences overlap_text
               in if sentences \<noteq> [] then last sentences else []))"

definition paragraph_step :: "int \<Rightarrow> int \<Rightarrow> string list \<times> string \<Rightarrow> string \<Rightarrow> string list \<times> string" where
  "paragraph_step chunk_size chunk_overlap st paragraph =
     (let (chunks, current_chunk) = st;
          (chunks, current_chunk) =
            (if int (length current_chunk) + int (length paragraph) > chunk_size
                \<and> current_chunk \<noteq> []
             then (chunks @ [current_chunk],
                   if chunk_overlap > 0 then paragraph_overlap current_chunk chunk_overlap
                   else [])
             else (chunks, current_chunk));
          current_chunk =
            (if current_chunk \<noteq> [] \<and> \<not> suffix [newline, newline] current_chunk
             then current_chunk @ [newline, newline] else current_chunk)
      in (chunks, current_chunk @ paragraph))"

definition chunk_by_paragraph :: "string \<Rightarrow> int \<Rightarrow> int \<Rightarrow> string list" where
  "chunk_by_paragraph text chunk_size chunk_overlap =
     (let paragraphs = split_into_paragraphs text;
          (chunks, current_chunk) =
            foldl (paragraph_step chunk_size chunk_overlap) ([], []) paragraphs
      in if py_strip current_chunk \<noteq> [] then chunks @ [current_chunk] else chunks)"

subsection \<open>Strategy selection\<close>

definition chunk_by_semantic :: "string \<Rightarrow> int \<Rightarrow> int \<Rightarrow> string list" where
  "chunk_by_semantic text chunk_size chunk_overlap =
     chunk_by_sentence text chunk_size chunk_overlap"

definition chunk_text :: "string \<Rightarrow> int \<Rightarrow> int \<Rightarrow> ChunkStrategy \<Rightarrow> py_error + string list" where
  "chunk_text text chunk_size chunk_overlap strategy =
     (if text = [] then Inr []
      else (case strategy of
              FIXED_SIZE \<Rightarrow> chunk_by_fixed_size text chunk_size chunk_overlap
            | SENTENCE \<Rightarrow> Inr (chunk_by_sentence text chunk_size chunk_overlap)
            | PARAGRAPH \<Rightarrow> Inr (chunk_by_paragraph text chunk_size chunk_overlap)
            | SEMANTIC \<Rightarrow> Inr (chunk_by_semantic text chunk_size chunk_overlap)))"

text \<open>
  The fixed-size chunks as the specification describes them: the slices of
  \<open>chunk_size\<close> characters that start at the multiples \<open>k * step\<close> below the length of
  the text (there are \<open>\<lceil>length text / step\<rceil>\<close> of them), those that are all whitespace
  left out; \<open>step\<close> is \<open>chunk_size - chunk_overlap\<close> when that is positive and
  \<open>chunk_size\<close> otherwise.
\<close>

definition fixed_size_slices :: "string \<Rightarrow> int \<Rightarrow> int \<Rightarrow> string list" where
  "fixed_size_slices text chunk_size chunk_overlap =
     (let step = (if 0 < chunk_size - chunk_overlap then nat (chunk_size - chunk_overlap)
                  else nat chunk_size)
      in filter (\<lambda>c. \<exists>ch\<in>set c. \<not> py_isspace ch)
           (map (\<lambda>k. take (nat chunk_size) (drop (k * step) text))
              [0..<(length text + step - 1) div step]))"

section \<open>Application settings\<close>

text \<open>
  The settings object is an instance of the class \<open>Settings\<close>. Its values come from the
  environment; its attribute names are fixed by the class: four strings and nine
  groups of sub-settings, the agent limits being fields of the group \<open>agent\<close>.
  Reading any other attribute raises \<open>AttributeError\<close>.
\<close>

record AgentSettings =
  max_deployed_agents :: int
  agent_timeout_seconds :: int

record Settings =
  app_name :: string
  version :: string
  description :: string
  environment :: string
  agent_settings :: AgentSettings

datatype attr_value = IntAttr int | StrAttr string | SettingsAttr string

definition sub_settings_names :: "string list" where
  "sub_settings_names =
     [''db'', ''api'', ''security'', ''storage'', ''ocr'', ''log'', ''model'', ''vector_db'',
      ''agent'']"

definition settings_getattr :: "Settings \<Rightarrow> string \<Rightarrow> py_error + attr_value" where
  "settings_getattr s a =
     (if a = ''app_name'' then Inr (StrAttr (app_name s))
      else if a = ''version'' then Inr (StrAttr (version s))
      else if a = ''description'' then Inr (StrAttr (description s))
      else if a = ''environment'' then Inr (StrAttr (environment s))
      else if a \<in> set sub_settings_names then Inr (SettingsAttr a)
      else Inl AttributeError)"

text \<open>\<open>n >= v\<close> and \<open>x > v\<close> for an integer and an attribute value: only numbers compare.\<close>

fun int_ge_attr :: "int \<Rightarrow> attr_value \<Rightarrow> py_error + bool" where
  "int_ge_attr n (IntAttr m) = Inr (n \<ge> m)"
| "int_ge_attr n _ = Inl TypeError"

text \<open>
  \<open>delta.total_seconds() > v\<close>, for a time difference \<open>delta\<close> in microseconds and a
  number \<open>v\<close> of seconds: \<open>total_seconds()\<close> is the float quotient of the microseconds
  by \<open>10 ** 6\<close>, and a float compares with an integer by value.
\<close>

fun total_seconds_gt_attr :: "int \<Rightarrow> attr_value \<Rightarrow> py_error + bool" where
  "total_seconds_gt_attr delta (IntAttr m) =
     Inr (float_round (of_int delta / 1000000) > of_int m)"
| "total_seconds_gt_attr delta _ = Inl TypeError"

section \<open>Agent manager\<close>

datatype AgentType = FINE_TUNED | RAG | OtherAgentType string

datatype AgentStatus = CREATED | DEPLOYING | DEPLOYED | FAILED | STOPPED

datatype json = JAtom string | JDict "(string \<times> json) list"

text \<open>The fields of an \<open>Agent\<close> object that the manager reads or writes.\<close>

record Agent =
  agent_id :: string
  agent_name :: string
  model_id :: string
  agent_type :: AgentType
  agent_status :: AgentStatus
  config :: "(string \<times> json) list option"

record ChatMessage =
  role :: string
  content :: string
  timestamp :: "int option"

record ConversationState =
  messages :: "ChatMessage list"
  last_updated :: int

record ModelInfo =
  info_model_id :: string
  model_type :: string
  loaded_at :: int

text \<open>
  A runtime entry of the registry. \<open>agent\<close> is a reference to the \<open>Agent\<close> object the
  caller passed to \<open>deploy_agent\<close>: the entry and the caller share the object.
\<close>

record AgentRuntime =
  agent :: nat
  model_info :: ModelInfo
  last_used :: int
  active_conversations :: "(string \<times> ConversationState) list"

text \<open>
  The state the manager works on: the \<open>Agent\<close> objects by reference, the module-level
  dictionary \<open>deployed_agents\<close> in insertion order, and the two sources of values the
  code reads from outside: the clock (\<open>datetime.utcnow()\<close>, in microseconds; the
  \<open>n\<close>-th reading returns \<open>clock n\<close>) and the generator of identifiers
  (\<open>str(uuid.uuid4())\<close>).
\<close>

record world =
  agents :: "nat \<Rightarrow> Agent"
  deployed_agents :: "(string \<times> AgentRuntime) list"
  clock :: "nat \<Rightarrow> int"
  clock_reads :: nat
  uuids :: "nat \<Rightarrow> string"
  uuid_reads :: nat

definition utcnow :: "world \<Rightarrow> int \<times> world" where
  "utcnow w = (clock w (clock_reads w), w\<lparr>clock_reads := Suc (clock_reads w)\<rparr>)"

definition uuid4 :: "world \<Rightarrow> string \<times> world" where
  "uuid4 w = (uuids w (uuid_reads w), w\<lparr>uuid_reads := Suc (uuid_reads w)\<rparr>)"

definition set_status :: "nat \<Rightarrow> AgentStatus \<Rightarrow> world \<Rightarrow> world" where
  "set_status a s w = w\<lparr>agents := (agents w)(a := (agents w a)\<lparr>agent_status := s\<rparr>)\<rparr>"

definition dict_has :: "'k \<Rightarrow> ('k \<times> 'v) list \<Rightarrow> bool" where
  "dict_has k d = (map_of d k \<noteq> None)"

text \<open>\<open>d.update(other)\<close>.\<close>

definition py_dict_update :: "('k \<times> 'v) list \<Rightarrow> ('k \<times> 'v) list \<Rightarrow> ('k \<times> 'v) list" where
  "py_dict_update d other = foldl (\<lambda>d (k, v). AList.update k v d) d other"

definition load_fine_tuned_model :: "string \<Rightarrow> world \<Rightarrow> ModelInfo \<times> world" where
  "load_fine_tuned_model mid w =
     (let (now, w) = utcnow w
      in (\<lparr>info_model_id = mid, model_type = ''fine_tuned'', loaded_at = now\<rparr>, w))"

definition load_rag_model :: "string \<Rightarrow> world \<Rightarrow> ModelInfo \<times> world" where
  "load_rag_model mid w =
     (let (now, w) = utcnow w
      in (\<lparr>info_model_id = mid, model_type = ''rag'', loaded_at = now\<rparr>, w))"

text \<open>
  The second half of the \<open>try\<close> block of \<open>deploy_agent\<close>, from the update of the status to
  \<open>DEPLOYING\<close> on.
\<close>

definition deploy_agent_load :: "nat \<Rightarrow> world \<Rightarrow> (py_error + bool) \<times> world" where
  "deploy_agent_load a w =
     (let w = set_status a DEPLOYING w;
          ag = agents w a
      in case agent_type ag of
           OtherAgentType t \<Rightarrow> (Inr False, w)
         | _ \<Rightarrow>
           (let (info, w) = (if agent_type ag = FINE_TUNED
                             then load_fine_tuned_model (model_id ag) w
                             else load_rag_model (model_id ag) w);
                (now, w) = utcnow w;
                w = w\<lparr>deployed_agents :=
                       AList.update (agent_id ag)
                         \<lparr>agent = a, model_info = info, last_used = now,
                          active_conversations = []\<rparr>
                         (deployed_agents w)\<rparr>;
                w = set_status a DEPLOYED w
            in (Inr True, w)))"

text \<open>The \<open>try\<close> block of \<open>deploy_agent\<close>; \<open>Inl\<close> is an exception that leaves the block.\<close>

definition deploy_agent_try :: "Settings \<Rightarrow> nat \<Rightarrow> world \<Rightarrow> (py_error + bool) \<times> world" where
  "deploy_agent_try settings a w =
     (if dict_has (agent_id (agents w a)) (deployed_agents w) then (Inr True, w)
      else case settings_getattr settings ''MAX_DEPLOYED_AGENTS'' of
             Inl e \<Rightarrow> (Inl e, w)
           | Inr limit \<Rightarrow>
               (case int_ge_attr (int (length (deployed_agents w))) limit of
                  Inl e \<Rightarrow> (Inl e, w)
                | Inr True \<Rightarrow> (Inr False, w)
                | Inr False \<Rightarrow> deploy_agent_load a w))"

definition deploy_agent :: "Settings \<Rightarrow> nat \<Rightarrow> world \<Rightarrow> bool \<times> world" where
  "deploy_agent settings a w =
     (case deploy_agent_try settings a w of
        (Inr b, w) \<Rightarrow> (b, w)
      | (Inl e, w) \<Rightarrow> (False, set_status a FAILED w))"

definition stop_agent :: "string \<Rightarrow> world \<Rightarrow> bool \<times> world" where
  "stop_agent aid w =
     (case map_of (deployed_agents w) aid of
        None \<Rightarrow> (True, w)
      | Some agent_runtime \<Rightarrow>
          (let w = set_status (agent agent_runtime) STOPPED w;
               w = w\<lparr>deployed_agents := AList.delete aid (deployed_agents w)\<rparr>
           in (True, w)))"

definition stop_all_agents :: "world \<Rightarrow> world" where
  "stop_all_agents w =
     foldl (\<lambda>w aid. snd (stop_agent aid w)) w (map fst (deployed_agents w))"

definition get_agent_status :: "string \<Rightarrow> world \<Rightarrow> AgentStatus option" where
  "get_agent_status aid w =
     (case map_of (deployed_agents w) aid of
        None \<Rightarrow> None
      | Some agent_runtime \<Rightarrow> Some (agent_status (agents w (agent agent_runtime))))"

definition update_agent_last_used :: "string \<Rightarrow> world \<Rightarrow> world" where
  "update_agent_last_used aid w =
     (if dict_has aid (deployed_agents w)
      then (let (now, w) = utcnow w
            in w\<lparr>deployed_agents :=
                   AList.map_entry aid (\<lambda>rt. rt\<lparr>last_used := now\<rparr>) (deployed_agents w)\<rparr>)
      else w)"

text \<open>
  The in-memory conversation is stored in the runtime entry; the \<open>Conversation\<close>
  object the function builds afterwards is never stored and is left out.
\<close>

definition create_conversation :: "string \<Rightarrow> string \<Rightarrow> string option \<Rightarrow> world \<Rightarrow> string option \<times> world" where
  "create_conversation aid user_id system_message w =
     (if \<not> dict_has aid (deployed_agents w) then (None, w)
      else (let (conversation_id, w) = uuid4 w;
                (msgs, w) =
                  (case system_message of
                     Some (c # cs) \<Rightarrow>
                       (let (now, w) = utcnow w
                        in ([\<lparr>role = ''system'', content = c # cs, timestamp = Some now\<rparr>], w))
                   | _ \<Rightarrow> ([], w));
                (now, w) = utcnow w;
                w = w\<lparr>deployed_agents :=
                       AList.map_entry aid
                         (\<lambda>rt. rt\<lparr>active_conversations :=
                                    AList.update conversation_id
                                      \<lparr>messages = msgs, last_updated = now\<rparr>
                                      (active_conversations rt)\<rparr>)
                         (deployed_agents w)\<rparr>
            in (Some conversation_id, w)))"

definition get_conversation :: "string \<Rightarrow> string \<Rightarrow> world \<Rightarrow> ConversationState option" where
  "get_conversation aid conversation_id w =
     (case map_of (deployed_agents w) aid of
        None \<Rightarrow> None
      | Some rt \<Rightarrow> map_of (active_conversations rt) conversation_id)"

definition has_conversation :: "string \<Rightarrow> string \<Rightarrow> world \<Rightarrow> bool" where
  "has_conversation aid conversation_id w = (get_conversation aid conversation_id w \<noteq> None)"

definition add_message_to_conversation :: "string \<Rightarrow> string \<Rightarrow> ChatMessage \<Rightarrow> world \<Rightarrow> bool \<times> world" where
  "add_message_to_conversation aid conversation_id message w =
     (if \<not> dict_has aid (deployed_agents w) then (False, w)
      else if \<not> has_conversation aid conversation_id w then (False, w)
      else (let w = w\<lparr>deployed_agents :=
                       AList.map_entry aid
                         (\<lambda>rt. rt\<lparr>active_conversations :=
                                    AList.map_entry conversation_id
                                      (\<lambda>c. c\<lparr>messages := messages c @ [message]\<rparr>)
                                      (active_conversations rt)\<rparr>)
                         (deployed_agents w)\<rparr>;
                (now, w) = utcnow w;
                w = w\<lparr>deployed_agents :=
                       AList.map_entry aid
                         (\<lambda>rt. rt\<lparr>active_conversations :=
                                    AList.map_entry conversation_id
                                      (\<lambda>c. c\<lparr>last_updated := now\<rparr>)
                                      (active_conversations rt)\<rparr>)
                         (deployed_agents w)\<rparr>;
                w = update_agent_last_used aid w
            in (True, w)))"

text \<open>
  \<open>config = agent.config or {}\<close> followed by \<open>config.update(extra)\<close> when \<open>extra\<close> is
  not empty: a non-empty \<open>agent.config\<close> is the dictionary that is updated, in place;
  otherwise the update goes to a fresh dictionary that is dropped.
\<close>

definition merge_into_agent_config :: "nat \<Rightarrow> (string \<times> json) list \<Rightarrow> world \<Rightarrow> world" where
  "merge_into_agent_config a extra w =
     (case config (agents w a) of
        Some (kv # kvs) \<Rightarrow>
          w\<lparr>agents := (agents w)(a := (agents w a)\<lparr>config := Some (py_dict_update (kv # kvs) extra)\<rparr>)\<rparr>
      | _ \<Rightarrow> w)"

definition generate_response :: "string \<Rightarrow> string \<Rightarrow> (string \<times> json) list option \<Rightarrow> world \<Rightarrow> ChatMessage option \<times> world" where
  "generate_response aid conversation_id generation_config w =
     (case map_of (deployed_agents w) aid of
        None \<Rightarrow> (None, w)
      | Some agent_runtime \<Rightarrow>
          if \<not> has_conversation aid conversation_id w then (None, w)
          else (let a = agent agent_runtime;
                    w = (case generation_config of
                           Some (kv # kvs) \<Rightarrow> merge_into_agent_config a (kv # kvs) w
                         | _ \<Rightarrow> w);
                    ag = agents w a;
                    response_content =
                      ''This is a placeholder response from agent '' @ agent_name ag
                        @ '' (ID: '' @ agent_id ag @ '')'';
                    (now, w) = utcnow w;
                    response = \<lparr>role = ''assistant'', content = response_content,
                                timestamp = Some now\<rparr>;
                    (_, w) = add_message_to_conversation aid conversation_id response w;
                    w = update_agent_last_used aid w
                in (Some response, w)))"

record PlaceholderContext =
  ctx_text :: string
  ctx_document_id :: string
  ctx_document_name :: string
  ctx_chunk_id :: string
  ctx_score :: rat
  ctx_page_numbers :: "int list"

definition generate_rag_response ::
  "string \<Rightarrow> string \<Rightarrow> (string \<times> json) list option \<Rightarrow> (string \<times> json) list option \<Rightarrow> world
     \<Rightarrow> (ChatMessage \<times> PlaceholderContext list) option \<times> world" where
  "generate_rag_response aid conversation_id retrieval_config generation_config w =
     (case map_of (deployed_agents w) aid of
        None \<Rightarrow> (None, w)
      | Some agent_runtime \<Rightarrow>
          if \<not> has_conversation aid conversation_id w then (None, w)
          else if agent_type (agents w (agent agent_runtime)) \<noteq> RAG then (None, w)
          else (let a = agent agent_runtime;
                    w = (case retrieval_config of
                           Some (kv # kvs) \<Rightarrow>
                             merge_into_agent_config a [(''retrieval'', JDict (kv # kvs))] w
                         | _ \<Rightarrow> w);
                    w = (case generation_config of
                           Some (kv # kvs) \<Rightarrow>
                             merge_into_agent_config a [(''generation'', JDict (kv # kvs))] w
                         | _ \<Rightarrow> w);
                    ag = agents w a;
                    response_content =
                      ''This is a placeholder RAG response from agent '' @ agent_name ag
                        @ '' (ID: '' @ agent_id ag @ '')'';
                    (now, w) = utcnow w;
                    response = \<lparr>role = ''assistant'', content = response_content,
                                timestamp = Some now\<rparr>;
                    (_, w) = add_message_to_conversation aid conversation_id response w;
                    w = update_agent_last_used aid w;
                    (document_id, w) = uuid4 w;
                    (chunk_id, w) = uuid4 w;
                    contexts =
                      [\<lparr>ctx_text = ''This is a placeholder retrieved context.'',
                        ctx_document_id = document_id,
                        ctx_document_name = ''Sample Document'',
                        ctx_chunk_id = chunk_id,
                        ctx_score = float_round (95 / 100),
                        ctx_page_numbers = [1]\<rparr>]
                in (Some (response, contexts), w)))"

text \<open>
  The loop of \<open>cleanup_inactive_agents\<close> over the keys the registry had when the loop
  started; \<open>deployed_agents[agent_id]\<close> raises \<open>KeyError\<close> for a key that is gone. An
  exception ends the loop and keeps what the loop has done so far.
\<close>

fun cleanup_loop :: "int \<Rightarrow> attr_value \<Rightarrow> string list \<Rightarrow> world \<Rightarrow> (py_error + unit) \<times> world" where
  "cleanup_loop now timeout_seconds [] w = (Inr (), w)"
| "cleanup_loop now timeout_seconds (aid # aids) w =
     (case map_of (deployed_agents w) aid of
        None \<Rightarrow> (Inl KeyError, w)
      | Some agent_runtime \<Rightarrow>
          (case total_seconds_gt_attr (now - last_used agent_runtime) timeout_seconds of
             Inl e \<Rightarrow> (Inl e, w)
           | Inr True \<Rightarrow> cleanup_loop now timeout_seconds aids (snd (stop_agent aid w))
           | Inr False \<Rightarrow> cleanup_loop now timeout_seconds aids w))"

definition cleanup_inactive_agents_try :: "Settings \<Rightarrow> world \<Rightarrow> (py_error + unit) \<times> world" where
  "cleanup_inactive_agents_try settings w =
     (let (now, w) = utcnow w
      in case settings_getattr settings ''AGENT_TIMEOUT_SECONDS'' of
           Inl e \<Rightarrow> (Inl e, w)
         | Inr timeout_seconds \<Rightarrow>
             cleanup_loop now timeout_seconds (map fst (deployed_agents w)) w)"

text \<open>The handler of the \<open>try\<close> block only logs the exception.\<close>

definition cleanup_inactive_agents :: "Settings \<Rightarrow> world \<Rightarrow> world" where
  "cleanup_inactive_agents settings w = snd (cleanup_inactive_agents_try settings w)"

section \<open>Training manager\<close>

datatype TrainingType = FULL_FINE_TUNING | LORA | QLORA | PEFT

datatype TrainingStatus = PENDING | PREPARING | RUNNING | COMPLETED | JOB_FAILED | CANCELLED

datatype ModelStatus = MODEL_CREATED | MODEL_TRAINING | MODEL_READY | MODEL_FAILED | MODEL_ARCHIVED

text \<open>The metrics dictionary of a training step.\<close>

record Metrics =
  metric_loss :: rat
  metric_learning_rate :: json
  metric_step :: nat
  metric_total_steps :: nat

record TrainingJob =
  job_model_id :: string
  training_type :: TrainingType
  dataset_id :: string
  hyperparameters :: "(string \<times> json) list option"
  job_status :: TrainingStatus
  progress :: rat
  metrics :: "Metrics option"
  error_message :: "string option"

record Model =
  model_status :: ModelStatus

text \<open>
  The state of the training service: the two tables the registry reads and writes
  through its session (the \<open>updated_at\<close> columns are left out), the keys of the
  module-level dictionary \<open>active_jobs\<close>, the history of the values assigned to the
  \<open>progress\<close> attribute, job by job, and the number of calls of \<open>time.sleep(0.1)\<close> so
  far.
\<close>

record training_state =
  jobs :: "string \<rightharpoonup> TrainingJob"
  models :: "string \<rightharpoonup> Model"
  active_jobs :: "string set"
  progress_log :: "(string \<times> rat) list"
  sleeps :: nat

subsection \<open>The registry on its session\<close>

text \<open>
  The session that \<open>get_db\<close> yields is a synchronous \<open>Session\<close>: \<open>Query.first()\<close>,
  \<open>commit()\<close> and \<open>refresh()\<close> do their work and return a plain value (a row or
  \<open>None\<close>). The registry applies \<open>await\<close> to these values, and \<open>await\<close> of a value
  that is no awaitable raises \<open>TypeError\<close>.
\<close>

definition py_await :: "'a \<Rightarrow> py_error + 'a" where
  "py_await v = Inl TypeError"

definition get_training_job :: "string \<Rightarrow> training_state \<Rightarrow> py_error + TrainingJob option" where
  "get_training_job jid st = py_await (jobs st jid)"

definition get_model :: "string \<Rightarrow> training_state \<Rightarrow> py_error + Model option" where
  "get_model mid st = py_await (models st mid)"

text \<open>
  The part of \<open>update_training_job\<close> that follows a new status to the model of the job.
\<close>

definition update_model_for_status ::
  "TrainingStatus \<Rightarrow> string \<Rightarrow> training_state \<Rightarrow> (py_error + unit) \<times> training_state" where
  "update_model_for_status s mid st =
     (if s = COMPLETED \<or> s = JOB_FAILED
      then (case get_model mid st of
              Inl e \<Rightarrow> (Inl e, st)
            | Inr None \<Rightarrow> (Inr (), st)
            | Inr (Some m) \<Rightarrow>
                (Inr (),
                 st\<lparr>models := (models st)(mid \<mapsto>
                      m\<lparr>model_status := (if s = COMPLETED then MODEL_READY else MODEL_FAILED)\<rparr>)\<rparr>))
      else (Inr (), st))"

text \<open>
  \<open>ModelRegistry.update_training_job\<close>; an argument left out is \<open>None\<close>. An exception
  keeps the assignments made before it.
\<close>

definition update_training_job ::
  "string \<Rightarrow> TrainingStatus option \<Rightarrow> rat option \<Rightarrow> Metrics option \<Rightarrow> string option
     \<Rightarrow> training_state \<Rightarrow> (py_error + TrainingJob option) \<times> training_state" where
  "update_training_job jid status prog mets err st =
     (case get_training_job jid st of
        Inl e \<Rightarrow> (Inl e, st)
      | Inr None \<Rightarrow> (Inr None, st)
      | Inr (Some job) \<Rightarrow>
          (let job = (case status of None \<Rightarrow> job | Some s \<Rightarrow> job\<lparr>job_status := s\<rparr>);
               st = st\<lparr>jobs := (jobs st)(jid \<mapsto> job)\<rparr>
           in case (case status of
                      None \<Rightarrow> (Inr (), st)
                    | Some s \<Rightarrow> update_model_for_status s (job_model_id job) st) of
                (Inl e, st) \<Rightarrow> (Inl e, st)
              | (Inr _, st) \<Rightarrow>
                  (let (job, st) =
                         (case prog of
                            None \<Rightarrow> (job, st)
                          | Some p \<Rightarrow> (job\<lparr>progress := p\<rparr>,
                                       st\<lparr>progress_log := progress_log st @ [(jid, p)]\<rparr>));
                       job = (case mets of None \<Rightarrow> job | Some m \<Rightarrow> job\<lparr>metrics := Some m\<rparr>);
                       job = (case err of None \<Rightarrow> job | Some e \<Rightarrow> job\<lparr>error_message := Some e\<rparr>);
                       st = st\<lparr>jobs := (jobs st)(jid \<mapsto> job)\<rparr>
                   in case py_await () of
                        Inl e \<Rightarrow> (Inl e, st)
                      | Inr _ \<Rightarrow>
                          (case py_await () of
                             Inl e \<Rightarrow> (Inl e, st)
                           | Inr _ \<Rightarrow> (Inr (Some job), st)))))"

subsection \<open>The training threads\<close>

text \<open>
  The simulated training loop, over the steps that are left. \<open>stop n\<close> is what
  \<open>stop_event.is_set()\<close> returns at step \<open>n\<close>. \<open>hyperparameters.get\<close> raises
  \<open>AttributeError\<close> when the hyperparameters are \<open>None\<close>, and an exception of the update
  leaves the loop.
\<close>

datatype loop_exit = Finished | Stopped | Raised py_error

definition dict_get_default :: "('k \<times> 'v) list \<Rightarrow> 'k \<Rightarrow> 'v \<Rightarrow> 'v" where
  "dict_get_default d k dflt = (case map_of d k of None \<Rightarrow> dflt | Some v \<Rightarrow> v)"

fun training_loop ::
  "string \<Rightarrow> (string \<times> json) list option \<Rightarrow> (nat \<Rightarrow> bool) \<Rightarrow> nat \<Rightarrow> nat list \<Rightarrow> training_state
     \<Rightarrow> loop_exit \<times> training_state" where
  "training_loop jid hp stop total_steps [] st = (Finished, st)"
| "training_loop jid hp stop total_steps (step # steps) st =
     (if stop step then (Stopped, st)
      else (let prog = float_round (float_round (of_nat step / of_nat total_steps) * 100)
            in case hp of
                 None \<Rightarrow> (Raised AttributeError, st)
               | Some h \<Rightarrow>
                   (let mets =
                          \<lparr>metric_loss =
                             float_round
                               (1 - float_round (float_round (prog / 100) * float_round (9 / 10))),
                           metric_learning_rate =
                             dict_get_default h ''learning_rate'' (JAtom ''5e-5''),
                           metric_step = step, metric_total_steps = total_steps\<rparr>
                    in case update_training_job jid None (Some prog) (Some mets) None st of
                         (Inl e, st) \<Rightarrow> (Raised e, st)
                       | (Inr _, st) \<Rightarrow>
                           training_loop jid hp stop total_steps steps
                             (st\<lparr>sleeps := Suc (sleeps st)\<rparr>))))"

text \<open>The \<open>try\<close> block of \<open>_run_lora_training\<close>.\<close>

definition run_lora_training_try ::
  "string \<Rightarrow> string \<Rightarrow> string \<Rightarrow> (string \<times> json) list option \<Rightarrow> (nat \<Rightarrow> bool) \<Rightarrow> training_state
     \<Rightarrow> (py_error + unit) \<times> training_state" where
  "run_lora_training_try jid mid dsid hp stop st =
     (case update_training_job jid (Some RUNNING) (Some 0) None None st of
        (Inl e, st) \<Rightarrow> (Inl e, st)
      | (Inr _, st) \<Rightarrow>
          (case get_model mid st of
             Inl e \<Rightarrow> (Inl e, st)
           | Inr None \<Rightarrow>
               (case update_training_job jid (Some JOB_FAILED) None None
                       (Some (''Model not found: '' @ mid)) st of
                  (Inl e, st) \<Rightarrow> (Inl e, st)
                | (Inr _, st) \<Rightarrow> (Inr (), st))
           | Inr (Some model) \<Rightarrow>
               (let total_steps = 100
                in case training_loop jid hp stop total_steps [0..<total_steps + 1] st of
                     (Stopped, st) \<Rightarrow> (Inr (), st)
                   | (Raised e, st) \<Rightarrow> (Inl e, st)
                   | (Finished, st) \<Rightarrow>
                       (case update_training_job jid (Some COMPLETED) (Some 100) None None st of
                          (Inl e, st) \<Rightarrow> (Inl e, st)
                        | (Inr _, st) \<Rightarrow>
                            (Inr (), st\<lparr>active_jobs := active_jobs st - {jid}\<rparr>)))))"

text \<open>
  The handler of the block tries to set the job to \<open>FAILED\<close>, with an error message that
  ends with the text of the exception (the model keeps the fixed part of the message);
  an exception of this update is logged and dropped. Then the job leaves \<open>active_jobs\<close>.
\<close>

definition run_lora_training ::
  "string \<Rightarrow> string \<Rightarrow> string \<Rightarrow> (string \<times> json) list option \<Rightarrow> (nat \<Rightarrow> bool) \<Rightarrow> training_state
     \<Rightarrow> training_state" where
  "run_lora_training jid mid dsid hp stop st =
     (case run_lora_training_try jid mid dsid hp stop st of
        (Inr _, st) \<Rightarrow> st
      | (Inl e, st) \<Rightarrow>
          (let st = snd (update_training_job jid (Some JOB_FAILED) None None
                           (Some ''Error in training job: '') st)
           in st\<lparr>active_jobs := active_jobs st - {jid}\<rparr>))"

definition run_qlora_training ::
  "string \<Rightarrow> string \<Rightarrow> string \<Rightarrow> (string \<times> json) list option \<Rightarrow> (nat \<Rightarrow> bool) \<Rightarrow> training_state
     \<Rightarrow> training_state" where
  "run_qlora_training jid mid dsid hp stop st = run_lora_training jid mid dsid hp stop st"

definition run_peft_training ::
  "string \<Rightarrow> string \<Rightarrow> string \<Rightarrow> (string \<times> json) list option \<Rightarrow> (nat \<Rightarrow> bool) \<Rightarrow> training_state
     \<Rightarrow> training_state" where
  "run_peft_training jid mid dsid hp stop st = run_lora_training jid mid dsid hp stop st"

definition run_full_fine_tuning ::
  "string \<Rightarrow> string \<Rightarrow> string \<Rightarrow> (string \<times> json) list option \<Rightarrow> (nat \<Rightarrow> bool) \<Rightarrow> training_state
     \<Rightarrow> training_state" where
  "run_full_fine_tuning jid mid dsid hp stop st = run_lora_training jid mid dsid hp stop st"

text \<open>
  The thread that \<open>start_training_job\<close> creates: its target, chosen by the training
  type, and the arguments of the target.
\<close>

record training_thread =
  target :: TrainingType
  thread_job_id :: string
  thread_model_id :: string
  thread_dataset_id :: string
  thread_hyperparameters :: "(string \<times> json) list option"

definition run_thread :: "training_thread \<Rightarrow> (nat \<Rightarrow> bool) \<Rightarrow> training_state \<Rightarrow> training_state" where
  "run_thread th stop st =
     (case target th of
        LORA \<Rightarrow> run_lora_training (thread_job_id th) (thread_model_id th)
                  (thread_dataset_id th) (thread_hyperparameters th) stop st
      | QLORA \<Rightarrow> run_qlora_training (thread_job_id th) (thread_model_id th)
                  (thread_dataset_id th) (thread_hyperparameters th) stop st
      | PEFT \<Rightarrow> run_peft_training (thread_job_id th) (thread_model_id th)
                  (thread_dataset_id th) (thread_hyperparameters th) stop st
      | FULL_FINE_TUNING \<Rightarrow> run_full_fine_tuning (thread_job_id th) (thread_model_id th)
                  (thread_dataset_id th) (thread_hyperparameters th) stop st)"

subsection \<open>Starting a job\<close>

definition thread_of_job :: "string \<Rightarrow> TrainingJob \<Rightarrow> training_thread" where
  "thread_of_job jid job =
     \<lparr>target = training_type job, thread_job_id = jid, thread_model_id = job_model_id job,
      thread_dataset_id = dataset_id job, thread_hyperparameters = hyperparameters job\<rparr>"

text \<open>
  The \<open>try\<close> block of \<open>start_training_job\<close>: its result or the exception that leaves it,
  the new state, and the thread it has started, if any.
\<close>

definition start_training_job_try ::
  "string \<Rightarrow> training_state \<Rightarrow> (py_error + bool) \<times> training_state \<times> training_thread option" where
  "start_training_job_try jid st =
     (case get_training_job jid st of
        Inl e \<Rightarrow> (Inl e, st, None)
      | Inr None \<Rightarrow> (Inr False, st, None)
      | Inr (Some job) \<Rightarrow>
          if job_status job = RUNNING then (Inr False, st, None)
          else (case get_model (job_model_id job) st of
                  Inl e \<Rightarrow> (Inl e, st, None)
                | Inr None \<Rightarrow> (Inr False, st, None)
                | Inr (Some model) \<Rightarrow>
                    (case update_training_job jid (Some PREPARING) (Some 0) None None st of
                       (Inl e, st) \<Rightarrow> (Inl e, st, None)
                     | (Inr _, st) \<Rightarrow>
                         (Inr True, st\<lparr>active_jobs := insert jid (active_jobs st)\<rparr>,
                          Some (thread_of_job jid job)))))"

text \<open>
  The handler awaits an update of the job to \<open>FAILED\<close> and returns \<open>False\<close>; an exception
  of this update leaves \<open>start_training_job\<close>.
\<close>

definition start_training_job ::
  "string \<Rightarrow> training_state \<Rightarrow> (py_error + bool) \<times> training_state \<times> training_thread option" where
  "start_training_job jid st =
     (case start_training_job_try jid st of
        (Inr b, st, th) \<Rightarrow> (Inr b, st, th)
      | (Inl e, st, th) \<Rightarrow>
          (case update_training_job jid (Some JOB_FAILED) None None
                  (Some ''Error starting training job: '') st of
             (Inl e', st) \<Rightarrow> (Inl e', st, th)
           | (Inr _, st) \<Rightarrow> (Inr False, st, th)))"

section \<open>RAG service\<close>

record RetrievedContext =
  rc_text :: string
  rc_document_id :: string
  rc_document_name :: string
  rc_chunk_id :: string
  rc_score :: rat
  rc_page_numbers :: "int list option"

text \<open>A chunk that the search of the vector store returns, by the keys the service reads.\<close>

record SimilarChunk =
  sc_id :: string
  sc_document_id :: string
  sc_text :: string
  sc_score :: rat
  sc_page_numbers :: "int list option"

record RagConfig =
  rag_dataset_id :: string
  embedding_model :: string
  retrieval_config :: "(string \<times> json) list"
  generation_config :: "(string \<times> json) list"

record RagModelData =
  base_model :: string
  rag_config :: RagConfig

text \<open>
  What the service reads from outside: the model registry (\<open>get_rag_model\<close>), the
  search of the vector store, whose class \<open>VectorStore\<close> the vector-store module does not
  define, with the arguments query, dataset, embedding model, \<open>top_k\<close> and similarity
  threshold, and the formatting of a score with two decimals (\<^verbatim>\<open>:.2f\<close>).
\<close>

record rag_env =
  get_rag_model :: "string \<Rightarrow> RagModelData option"
  vector_store_search :: "string \<Rightarrow> string \<Rightarrow> string \<Rightarrow> json \<Rightarrow> json \<Rightarrow> py_error + SimilarChunk list"
  format_score :: "rat \<Rightarrow> string"





text \<open>Decimal digits of a natural number, for \<open>{i+1}\<close> in a formatted string.\<close>

function show_nat :: "nat \<Rightarrow> string" where
  "show_nat n =
     (if n < 10 then [char_of (48 + n)]
      else show_nat (n div 10) @ [char_of (48 + n mod 10)])"
  by pat_completeness auto
termination
  by (relation "measure id") auto

fun prompt_contexts :: "nat \<Rightarrow> RetrievedContext list \<Rightarrow> string" where
  "prompt_contexts i [] = []"
| "prompt_contexts i (c # cs) =
     ''['' @ show_nat (i + 1) @ ''] '' @ rc_text c @ [newline, newline]
       @ prompt_contexts (Suc i) cs"

definition prepare_rag_prompt :: "string \<Rightarrow> RetrievedContext list \<Rightarrow> string" where
  "prepare_rag_prompt query contexts =
     ''You are an AI assistant that answers questions based on the provided context.''
       @ [newline, newline] @ ''Context information:'' @ [newline]
       @ prompt_contexts 0 contexts
       @ ''Question: '' @ query @ [newline, newline]
       @ ''Answer the question based on the context provided. If the answer cannot be determined from the context, say so.''"

fun response_contexts :: "(rat \<Rightarrow> string) \<Rightarrow> nat \<Rightarrow> RetrievedContext list \<Rightarrow> string" where
  "response_contexts fmt i [] = []"
| "response_contexts fmt i (c # cs) =
     ''- Context '' @ show_nat (i + 1) @ '' (score: '' @ fmt (rc_score c) @ ''): ''
       @ take 100 (rc_text c) @ ''...'' @ [newline]
       @ response_contexts fmt (Suc i) cs"

definition generate ::
  "rag_env \<Rightarrow> string \<Rightarrow> string \<Rightarrow> RetrievedContext list \<Rightarrow> (string \<times> json) list option
     \<Rightarrow> py_error + string" where
  "generate env mid query contexts gcfg =
     (case get_rag_model env mid of
        None \<Rightarrow> Inl ValueError
      | Some rag_model_data \<Rightarrow>
          (let base = base_model rag_model_data;
               model_generation_config = generation_config (rag_config rag_model_data);
               effective_generation_config =
                 py_dict_update model_generation_config (case gcfg of None \<Rightarrow> [] | Some d \<Rightarrow> d);
               prompt = prepare_rag_prompt query contexts;
               response = ''This is a simulated RAG response for the query: '' @ query
                            @ [newline, newline];
               response = response @ ''Based on the retrieved contexts:'' @ [newline];
               response = response @ response_contexts (format_score env) 0 contexts
           in Inr response))"



section \<open>Reachable states of the agent registry\<close>

text \<open>
  The states the registry can be in: it starts empty, callers may change the \<open>Agent\<close>
  objects they hold, and every function of the module takes a state to a state.
\<close>

inductive reachable :: "Settings \<Rightarrow> world \<Rightarrow> bool" for settings :: Settings where
  start: "deployed_agents w = [] \<Longrightarrow> reachable settings w"
| caller: "reachable settings w \<Longrightarrow> reachable settings (w\<lparr>agents := objs\<rparr>)"
| deploy: "reachable settings w \<Longrightarrow> reachable settings (snd (deploy_agent settings a w))"
| stop: "reachable settings w \<Longrightarrow> reachable settings (snd (stop_agent aid w))"
| stop_all: "reachable settings w \<Longrightarrow> reachable settings (stop_all_agents w)"
| last_used: "reachable settings w \<Longrightarrow> reachable settings (update_agent_last_used aid w)"
| conversation:
    "reachable settings w \<Longrightarrow> reachable settings (snd (create_conversation aid user_id sm w))"
| message:
    "reachable settings w \<Longrightarrow> reachable settings (snd (add_message_to_conversation aid cid msg w))"
| response:
    "reachable settings w \<Longrightarrow> reachable settings (snd (generate_response aid cid gcfg w))"
| rag_response:
    "reachable settings w \<Longrightarrow> reachable settings (snd (generate_rag_response aid cid rcfg gcfg w))"
| cleanup: "reachable settings w \<Longrightarrow> reachable settings (cleanup_inactive_agents settings w)"

section \<open>Concrete states\<close>

text \<open>
  The settings with the default values of the fields, an agent, the state before any
  deployment, and a state whose registry holds the agent with one conversation.
\<close>

definition default_settings :: Settings where
  "default_settings =
     \<lparr>app_name = ''LLM Training Platform'', version = ''1.0.0'',
      description = ''A privacy-focused on-premise platform for training and deploying AI agents using your organization's documents.'',
      environment = ''development'',
      agent_settings = \<lparr>max_deployed_agents = 5, agent_timeout_seconds = 30\<rparr>\<rparr>"

definition example_agent :: Agent where
  "example_agent =
     \<lparr>agent_id = ''agent-1'', agent_name = ''Helper'', model_id = ''model-1'',
      agent_type = RAG, agent_status = CREATED, config = None\<rparr>"

definition empty_world :: world where
  "empty_world =
     \<lparr>agents = (\<lambda>r. example_agent), deployed_agents = [],
      clock = (\<lambda>n. 31000000 + int n), clock_reads = 0,
      uuids = (\<lambda>n. ''uuid-'' @ show_nat n), uuid_reads = 0\<rparr>"

definition example_runtime :: AgentRuntime where
  "example_runtime =
     \<lparr>agent = 0,
      model_info = \<lparr>info_model_id = ''model-1'', model_type = ''rag'', loaded_at = 0\<rparr>,
      last_used = 0,
      active_conversations = [(''conv-1'', \<lparr>messages = [], last_updated = 0\<rparr>)]\<rparr>"

definition deployed_world :: world where
  "deployed_world =
     empty_world
       \<lparr>agents := (\<lambda>r. example_agent\<lparr>agent_status := DEPLOYED\<rparr>),
        deployed_agents := [(''agent-1'', example_runtime)]\<rparr>"

text \<open>The same state after a user message has been added to the conversation.\<close>

definition chatted_world :: world where
  "chatted_world =
     snd (add_message_to_conversation ''agent-1'' ''conv-1''
            \<lparr>role = ''user'', content = ''Hello'', timestamp = None\<rparr> deployed_world)"

section \<open>A pending training job\<close>

text \<open>
  A state of the registry with one model and one pending job for it, with
  hyperparameters, and the thread that \<open>start_training_job\<close> would create for the job.
\<close>

definition pending_job :: TrainingJob where
  "pending_job =
     \<lparr>job_model_id = ''model-1'', training_type = LORA, dataset_id = ''dataset-1'',
      hyperparameters = Some [(''learning_rate'', JAtom ''5e-5'')], job_status = PENDING,
      progress = 0, metrics = None, error_message = None\<rparr>"

definition pending_state :: training_state where
  "pending_state =
     \<lparr>jobs = [''job-1'' \<mapsto> pending_job],
      models = [''model-1'' \<mapsto> \<lparr>model_status = MODEL_TRAINING\<rparr>],
      active_jobs = {}, progress_log = [], sleeps = 0\<rparr>"

section \<open>Concrete RAG environments\<close>





section \<open>Properties of the chunking service\<close>

subsection \<open>Fixed-size chunking\<close>

lemma ceil_div_less: 
  assumes "0 < (s::nat)"
  shows "(j < (n + s - 1) div s) = (j * s < n)"
proof -
  have "(Suc j \<le> (n + s - 1) div s) = (Suc j * s \<le> n + s - 1)"
    using assms by (simp add: less_eq_div_iff_mult_less_eq)
  also have "\<dots> = (j * s < n)"
    using assms by (cases s) auto
  finally show ?thesis by (simp add: Suc_le_eq)
qed

lemma range_up_multiples:
  assumes "0 < (s::nat)" and "j \<le> (n + s - 1) div s"
  shows "range_up (int (j * s)) (int n) (int s) = map (\<lambda>k. int (k * s)) [j..<(n + s - 1) div s]"
  using assms(2)
proof (induction "(n + s - 1) div s - j" arbitrary: j)
  case 0
  then have "\<not> j < (n + s - 1) div s" by simp
  then have "\<not> j * s < n" using ceil_div_less [OF assms(1)] by simp
  then have "\<not> int (j * s) < int n" by (simp only: of_nat_less_iff not_False_eq_True)
  then show ?case using 0 by (subst range_up.simps) (simp del: of_nat_mult)
next
  case (Suc d)
  then have lt: "j < (n + s - 1) div s" by simp
  then have "j * s < n" using ceil_div_less [OF assms(1)] by simp
  then have "int (j * s) < int n" by (simp only: of_nat_less_iff)
  moreover have "int (j * s) + int s = int (Suc j * s)" by simp
  moreover have "range_up (int (Suc j * s)) (int n) (int s) = map (\<lambda>k. int (k * s)) [Suc j..<(n + s - 1) div s]"
    using Suc lt by (intro Suc.hyps(1)) auto
  ultimately show ?case using assms(1) lt
    by (subst range_up.simps) (simp add: upt_conv_Cons del: mult_Suc of_nat_mult of_nat_less_iff)
qed

lemma fixed_size_loop_filter:
  "fixed_size_loop text chunk_size is chunks =
     chunks @ filter (\<lambda>c. py_strip c \<noteq> []) (map (\<lambda>i. py_slice text i (i + chunk_size)) is)"
  by (induction "is" arbitrary: chunks) (simp_all add: Let_def)

lemma py_strip_nonempty: "(py_strip s \<noteq> []) = (\<exists>ch\<in>set s. \<not> py_isspace ch)"
proof
  assume "py_strip s \<noteq> []"
  then have "dropWhile py_isspace s \<noteq> []" unfolding py_strip_def by fastforce
  then show "\<exists>ch\<in>set s. \<not> py_isspace ch" by simp
next
  assume "\<exists>ch\<in>set s. \<not> py_isspace ch"
  then have ne: "dropWhile py_isspace s \<noteq> []" by simp
  then have "\<not> py_isspace (hd (dropWhile py_isspace s))" by (rule hd_dropWhile)
  moreover have "hd (dropWhile py_isspace s) \<in> set (rev (dropWhile py_isspace s))"
    using ne by simp
  ultimately have "dropWhile py_isspace (rev (dropWhile py_isspace s)) \<noteq> []"
    by (auto simp del: set_rev)
  then show "py_strip s \<noteq> []" by (simp add: py_strip_def)
qed

lemma py_slice_take_drop:
  assumes "0 < c" and "a < length xs"
  shows "py_slice xs (int a) (int a + c) = take (nat c) (drop a xs)"
proof -
  have "py_index (length xs) (int a) = a" using assms by (simp add: py_index_def)
  moreover have "py_index (length xs) (int a + c) = min (length xs) (a + nat c)"
    using assms by (simp add: py_index_def nat_add_distrib)
  ultimately show ?thesis
    by (simp add: py_slice_def Let_def min_def)
qed

lemma chunk_by_fixed_size_slices:
  assumes "0 < chunk_size"
  shows "chunk_by_fixed_size text chunk_size chunk_overlap =
           Inr (fixed_size_slices text chunk_size chunk_overlap)"
proof -
  define step where "step = (if 0 < chunk_size - chunk_overlap
                             then nat (chunk_size - chunk_overlap) else nat chunk_size)"
  have pos: "0 < step" using assms by (simp add: step_def)
  have step: "fixed_step_size chunk_size chunk_overlap = int step"
    using assms by (simp add: fixed_step_size_def step_def Let_def)
  let ?m = "(length text + step - 1) div step"
  have "range_up (int (0 * step)) (int (length text)) (int step) = map (\<lambda>k. int (k * step)) [0..<?m]"
    using pos by (intro range_up_multiples) simp_all
  then have rng: "py_range 0 (int (length text)) (int step) = Inr (map (\<lambda>k. int (k * step)) [0..<?m])"
    using pos by (simp add: py_range_def)
  have slice: "py_slice text (int (k * step)) (int (k * step) + chunk_size)
                 = take (nat chunk_size) (drop (k * step) text)" if "k \<in> set [0..<?m]" for k
  proof -
    from that have "k * step < length text" using ceil_div_less [OF pos] by simp
    then show ?thesis using assms by (rule py_slice_take_drop [rotated])
  qed
  have mp: "map (\<lambda>i. py_slice text i (i + chunk_size)) (map (\<lambda>k. int (k * step)) [0..<?m])
          = map (\<lambda>k. take (nat chunk_size) (drop (k * step) text)) [0..<?m]"
    unfolding map_map o_def by (rule map_cong [OF refl]) (rule slice)
  have "chunk_by_fixed_size text chunk_size chunk_overlap =
          Inr (filter (\<lambda>c. py_strip c \<noteq> [])
                 (map (\<lambda>i. py_slice text i (i + chunk_size)) (map (\<lambda>k. int (k * step)) [0..<?m])))"
    by (simp only: chunk_by_fixed_size_def step rng fixed_size_loop_filter sum.case append_Nil)
  also have "\<dots> = Inr (filter (\<lambda>c. \<exists>ch\<in>set c. \<not> py_isspace ch)
                 (map (\<lambda>k. take (nat chunk_size) (drop (k * step) text)) [0..<?m]))"
    by (simp only: mp py_strip_nonempty)
  also have "\<dots> = Inr (fixed_size_slices text chunk_size chunk_overlap)"
    unfolding fixed_size_slices_def Let_def step_def by (rule refl)
  finally show ?thesis .
qed


lemma fixed_size_slices_Nil: "0 < chunk_size \<Longrightarrow> fixed_size_slices [] chunk_size chunk_overlap = []"
  by (simp add: fixed_size_slices_def Let_def)

lemma fixed_size_slices_bounds:
  assumes "0 < chunk_size" and "c \<in> set (fixed_size_slices text chunk_size chunk_overlap)"
  shows "int (length c) \<le> chunk_size \<and> (\<exists>ch\<in>set c. \<not> py_isspace ch)"
proof -
  from assms(2) obtain k where c: "c = take (nat chunk_size) (drop k text)"
    and ns: "\<exists>ch\<in>set c. \<not> py_isspace ch"
    unfolding fixed_size_slices_def Let_def by auto
  have "length c \<le> nat chunk_size" unfolding c by simp
  then have "int (length c) \<le> chunk_size" using assms(1) by linarith
  then show ?thesis using ns by simp
qed

text \<open>
  Claim C9. For every text and every positive \<open>chunk_size\<close>, \<open>chunk_text\<close> with the
  fixed-size strategy returns (it raises nothing, and every function of the model is
  total), also when \<open>chunk_overlap \<ge> chunk_size\<close>, where the step falls back to
  \<open>chunk_size\<close>. The result is the list of slices \<open>text[i : i + chunk_size]\<close> at
  \<open>i = 0, step, 2 * step, \<dots>\<close> with the all-whitespace slices left out, so every chunk
  has at most \<open>chunk_size\<close> characters and a character that is not whitespace. For the
  empty text the result is the empty list under every strategy.
\<close>

theorem chunk_text_fixed_size_slices:
  assumes "0 < chunk_size"
  shows "(\<exists>chunks. chunk_text text chunk_size chunk_overlap FIXED_SIZE = Inr chunks
            \<and> chunks = fixed_size_slices text chunk_size chunk_overlap
            \<and> (\<forall>c\<in>set chunks. int (length c) \<le> chunk_size \<and> (\<exists>ch\<in>set c. \<not> py_isspace ch)))
         \<and> chunk_text [] any_size any_overlap strategy = Inr []"
proof -
  have eq: "chunk_text text chunk_size chunk_overlap FIXED_SIZE
              = Inr (fixed_size_slices text chunk_size chunk_overlap)"
  proof (cases "text = []")
    case True
    then show ?thesis using fixed_size_slices_Nil [OF assms] by (simp add: chunk_text_def)
  next
    case False
    then show ?thesis using chunk_by_fixed_size_slices [OF assms] by (simp add: chunk_text_def)
  qed
  have bounds: "\<forall>c\<in>set (fixed_size_slices text chunk_size chunk_overlap).
           int (length c) \<le> chunk_size \<and> (\<exists>ch\<in>set c. \<not> py_isspace ch)"
    using fixed_size_slices_bounds [OF assms] by blast
  have "chunk_text [] any_size any_overlap strategy = Inr []"
    by (simp add: chunk_text_def)
  with eq bounds show ?thesis by blast
qed

theorem chunk_text_fixed_size_slices_witness:
  "(0::int) < 5
   \<and> chunk_text ''hello world'' 5 7 FIXED_SIZE = Inr [''hello'', '' worl'', ''d'']
   \<and> fixed_size_slices ''hello world'' 5 7 = [''hello'', '' worl'', ''d'']
   \<and> chunk_text [] 5 7 PARAGRAPH = Inr []"
proof -
  have h: "(0::int) < 5" by simp
  have slices: "fixed_size_slices ''hello world'' 5 7 = [''hello'', '' worl'', ''d'']"
    by code_simp
  from chunk_text_fixed_size_slices [OF h, of "''hello world''" 7 5 7 PARAGRAPH]
  have "chunk_text ''hello world'' 5 7 FIXED_SIZE = Inr (fixed_size_slices ''hello world'' 5 7)"
    and "chunk_text [] 5 7 PARAGRAPH = Inr []"
    by blast+
  with h slices show ?thesis by simp
qed

subsection \<open>Chunks as slices of the text\<close>

lemma py_slice_sublist: "sublist (py_slice xs i j) xs"
proof -
  have "sublist (take n (drop a xs)) (drop a xs)" for n a by (rule sublist_take)
  moreover have "sublist (drop a xs) xs" for a by (rule sublist_drop)
  ultimately show ?thesis
    unfolding py_slice_def Let_def by (blast intro: sublist_order.order_trans)
qed

text \<open>
  Claim C2, as amended. For every text, \<open>chunk_size\<close> and \<open>chunk_overlap\<close>, every string
  that \<open>chunk_text\<close> returns under the fixed-size strategy is a contiguous slice of
  the text.
\<close>

theorem chunk_text_fixed_size_contiguous:
  assumes "chunk_text text chunk_size chunk_overlap FIXED_SIZE = Inr chunks"
  shows "\<forall>c\<in>set chunks. sublist c text"
proof (cases "text = []")
  case True
  then show ?thesis using assms by (simp add: chunk_text_def)
next
  case False
  with assms obtain "is" where "chunks = fixed_size_loop text chunk_size is []"
    by (auto simp: chunk_text_def chunk_by_fixed_size_def split: sum.splits)
  then have "set chunks \<subseteq> (\<lambda>i. py_slice text i (i + chunk_size)) ` set is"
    unfolding fixed_size_loop_filter by auto
  then show ?thesis using py_slice_sublist by blast
qed

theorem chunk_text_fixed_size_contiguous_witness:
  "chunk_text ''ab  cde'' 2 0 FIXED_SIZE = Inr [''ab'', ''cd'', ''e'']
   \<and> sublist ''ab'' ''ab  cde'' \<and> sublist ''cd'' ''ab  cde'' \<and> sublist ''e'' ''ab  cde''"
proof -
  have h: "chunk_text ''ab  cde'' 2 0 FIXED_SIZE = Inr [''ab'', ''cd'', ''e'']"
    by code_simp
  from chunk_text_fixed_size_contiguous [OF h]
  have "sublist ''ab'' ''ab  cde'' \<and> sublist ''cd'' ''ab  cde'' \<and> sublist ''e'' ''ab  cde''"
    by simp
  with h show ?thesis by (rule conjI)
qed

text \<open>
  The sentence and paragraph strategies join the pieces they split the text into with a
  single space and with a blank line, whatever separated them in the text: the chunk of
  \<open>A.\<newline>B.\<close> is \<open>A. B.\<close>, which is no slice of the text.
\<close>

theorem chunk_text_contiguous_counterexample:
  "chunk_text (''A.'' @ [newline] @ ''B.'') 1000 200 SENTENCE = Inr [''A. B.'']
   \<and> \<not> sublist ''A. B.'' (''A.'' @ [newline] @ ''B.'')
   \<and> chunk_text (''a'' @ [newline, CHR '' '', newline] @ ''b'') 1000 200 PARAGRAPH
       = Inr [''a'' @ [newline, newline] @ ''b'']
   \<and> \<not> sublist (''a'' @ [newline, newline] @ ''b'') (''a'' @ [newline, CHR '' '', newline] @ ''b'')"
  by code_simp

subsection \<open>Semantic chunking\<close>

text \<open>
  Claim C10. For every text, \<open>chunk_size\<close> and \<open>chunk_overlap\<close>, \<open>chunk_text\<close> with the
  semantic strategy returns the same list of chunks as with the sentence strategy.
\<close>

theorem chunk_text_semantic_is_sentence:
  "chunk_text text chunk_size chunk_overlap SEMANTIC
     = chunk_text text chunk_size chunk_overlap SENTENCE"
  by (simp add: chunk_text_def chunk_by_semantic_def)

section \<open>Properties of the agent manager\<close>

subsection \<open>The capacity check\<close>

lemma getattr_max_deployed_agents:
  "settings_getattr settings ''MAX_DEPLOYED_AGENTS'' = Inl AttributeError"
  by (simp add: settings_getattr_def sub_settings_names_def)

lemma getattr_agent_timeout_seconds:
  "settings_getattr settings ''AGENT_TIMEOUT_SECONDS'' = Inl AttributeError"
  by (simp add: settings_getattr_def sub_settings_names_def)

lemma deploy_agent_try_new:
  "\<not> dict_has (agent_id (agents w a)) (deployed_agents w)
     \<Longrightarrow> deploy_agent_try settings a w = (Inl AttributeError, w)"
  by (simp add: deploy_agent_try_def getattr_max_deployed_agents)

lemma deploy_agent_new:
  "\<not> dict_has (agent_id (agents w a)) (deployed_agents w)
     \<Longrightarrow> deploy_agent settings a w = (False, set_status a FAILED w)"
  by (simp add: deploy_agent_def deploy_agent_try_new)

lemma deploy_agent_old:
  "dict_has (agent_id (agents w a)) (deployed_agents w)
     \<Longrightarrow> deploy_agent settings a w = (True, w)"
  by (simp add: deploy_agent_def deploy_agent_try_def)

lemma deployed_agents_set_status [simp]:
  "deployed_agents (set_status a s w) = deployed_agents w"
  by (simp add: set_status_def)

lemma agent_status_set_status [simp]:
  "agent_status (agents (set_status a s w) a) = s"
  by (simp add: set_status_def)

lemma cleanup_inactive_agents_noop:
  "cleanup_inactive_agents settings w = w\<lparr>clock_reads := Suc (clock_reads w)\<rparr>"
  by (simp add: cleanup_inactive_agents_def cleanup_inactive_agents_try_def utcnow_def
      getattr_agent_timeout_seconds)

lemma empty_registry_preserved:
  assumes "deployed_agents w = []"
  shows "deployed_agents (snd (deploy_agent settings a w)) = []"
    and "deployed_agents (snd (stop_agent aid w)) = []"
    and "deployed_agents (stop_all_agents w) = []"
    and "deployed_agents (update_agent_last_used aid w) = []"
    and "deployed_agents (snd (create_conversation aid user_id sm w)) = []"
    and "deployed_agents (snd (add_message_to_conversation aid cid msg w)) = []"
    and "deployed_agents (snd (generate_response aid cid gcfg w)) = []"
    and "deployed_agents (snd (generate_rag_response aid cid rcfg gcfg w)) = []"
    and "deployed_agents (cleanup_inactive_agents settings w) = []"
  using assms
  by (simp_all add: deploy_agent_new dict_has_def stop_agent_def stop_all_agents_def
      update_agent_last_used_def create_conversation_def add_message_to_conversation_def
      generate_response_def generate_rag_response_def cleanup_inactive_agents_noop)

lemma reachable_registry_empty: "reachable settings w \<Longrightarrow> deployed_agents w = []"
  by (induction rule: reachable.induct) (simp_all add: empty_registry_preserved)

text \<open>
  Claim C3. For every agent whose id is not in the registry, \<open>deploy_agent\<close> returns
  \<open>False\<close>, leaves the status of the agent \<open>FAILED\<close> and leaves the registry as it was:
  the capacity check reads the attribute \<open>MAX_DEPLOYED_AGENTS\<close>, which the settings
  object does not have, and the handler catches the \<open>AttributeError\<close>. So the registry
  is empty in every reachable state, and \<open>create_conversation\<close> and
  \<open>generate_response\<close> return \<open>None\<close> for every agent id.
\<close>

theorem deploy_agent_fails_for_new_agent:
  "(\<not> dict_has (agent_id (agents w a)) (deployed_agents w) \<longrightarrow>
        fst (deploy_agent_try settings a w) = Inl AttributeError
      \<and> fst (deploy_agent settings a w) = False
      \<and> agent_status (agents (snd (deploy_agent settings a w)) a) = FAILED
      \<and> deployed_agents (snd (deploy_agent settings a w)) = deployed_agents w)
   \<and> (reachable settings w' \<longrightarrow>
        deployed_agents w' = []
      \<and> fst (create_conversation aid user_id sm w') = None
      \<and> fst (generate_response aid cid gcfg w') = None)"
proof (intro conjI impI)
  assume new: "\<not> dict_has (agent_id (agents w a)) (deployed_agents w)"
  show "fst (deploy_agent_try settings a w) = Inl AttributeError"
    using new by (simp add: deploy_agent_try_new)
  show "fst (deploy_agent settings a w) = False"
    using new by (simp add: deploy_agent_new)
  show "agent_status (agents (snd (deploy_agent settings a w)) a) = FAILED"
    using new by (simp add: deploy_agent_new)
  show "deployed_agents (snd (deploy_agent settings a w)) = deployed_agents w"
    using new by (simp add: deploy_agent_new)
next
  assume "reachable settings w'"
  then have empty: "deployed_agents w' = []" by (rule reachable_registry_empty)
  show "deployed_agents w' = []" by (rule empty)
  show "fst (create_conversation aid user_id sm w') = None"
    using empty by (simp add: create_conversation_def dict_has_def)
  show "fst (generate_response aid cid gcfg w') = None"
    using empty by (simp add: generate_response_def)
qed

theorem deploy_agent_fails_for_new_agent_witness:
  "\<not> dict_has (agent_id (agents empty_world 0)) (deployed_agents empty_world)
   \<and> reachable default_settings (snd (deploy_agent default_settings 0 empty_world))
   \<and> fst (deploy_agent default_settings 0 empty_world) = False
   \<and> agent_status (agents (snd (deploy_agent default_settings 0 empty_world)) 0) = FAILED
   \<and> fst (create_conversation ''agent-1'' ''user-1'' None
            (snd (deploy_agent default_settings 0 empty_world))) = None
   \<and> fst (generate_response ''agent-1'' ''conv-1'' None
            (snd (deploy_agent default_settings 0 empty_world))) = None"
proof -
  have new: "\<not> dict_has (agent_id (agents empty_world 0)) (deployed_agents empty_world)"
    by (simp add: empty_world_def dict_has_def)
  have "deployed_agents empty_world = []" by (simp add: empty_world_def)
  then have "reachable default_settings empty_world" by (rule reachable.start)
  then have reach: "reachable default_settings (snd (deploy_agent default_settings 0 empty_world))"
    by (rule reachable.deploy)
  show ?thesis
    using new reach
      deploy_agent_fails_for_new_agent [of empty_world 0 default_settings
        "snd (deploy_agent default_settings 0 empty_world)" "''agent-1''" "''user-1''" None
        "''conv-1''" None]
    by blast
qed

subsection \<open>Status of an agent\<close>

lemma deploy_agent_raised:
  assumes "fst (deploy_agent_try settings a w) = Inl e"
  shows "deploy_agent settings a w = (False, set_status a FAILED (snd (deploy_agent_try settings a w)))"
  using assms by (cases "deploy_agent_try settings a w") (simp add: deploy_agent_def)

lemma deploy_agent_never_deploys_new_agent:
  assumes "\<not> dict_has (agent_id (agents w a)) (deployed_agents w)"
  shows "\<not> fst (deploy_agent settings a w)"
    and "agent_status (agents (snd (deploy_agent settings a w)) a) \<noteq> DEPLOYED"
    and "\<not> dict_has (agent_id (agents w a)) (deployed_agents (snd (deploy_agent settings a w)))"
  using assms by (simp_all add: deploy_agent_new)

lemma stop_agent_deployed:
  assumes "map_of (deployed_agents w) aid = Some rt"
  shows "fst (stop_agent aid w)"
    and "agent_status (agents (snd (stop_agent aid w)) (agent rt)) = STOPPED"
    and "\<not> dict_has aid (deployed_agents (snd (stop_agent aid w)))"
  using assms by (simp_all add: stop_agent_def Let_def set_status_def dict_has_def delete_conv')

lemma get_agent_status_stored:
  "get_agent_status aid w =
     map_option (\<lambda>rt. agent_status (agents w (agent rt))) (map_of (deployed_agents w) aid)"
  by (simp add: get_agent_status_def split: option.splits)

lemma deployed_world_runtime:
  "map_of (deployed_agents deployed_world) ''agent-1'' = Some example_runtime"
  by (simp add: deployed_world_def empty_world_def)


subsection \<open>Placeholder responses\<close>

lemma merge_into_agent_config_agent [simp]:
  "agent_name (agents (merge_into_agent_config a extra w) b) = agent_name (agents w b)"
  "agent_id (agents (merge_into_agent_config a extra w) b) = agent_id (agents w b)"
  "agent_type (agents (merge_into_agent_config a extra w) b) = agent_type (agents w b)"
  by (simp_all add: merge_into_agent_config_def split: option.splits list.splits)

lemma generate_response_placeholder:
  assumes "map_of (deployed_agents w) aid = Some rt" and "has_conversation aid cid w"
  shows "\<exists>t. fst (generate_response aid cid gcfg w) =
           Some \<lparr>role = ''assistant'',
                 content = ''This is a placeholder response from agent ''
                             @ agent_name (agents w (agent rt))
                             @ '' (ID: '' @ agent_id (agents w (agent rt)) @ '')'',
                 timestamp = Some t\<rparr>"
  using assms
  by (simp add: generate_response_def Let_def split_def utcnow_def
      split: option.splits list.splits)

text \<open>
  Claim C5. For a deployed agent and an existing conversation, \<open>generate_response\<close>
  returns a message with the role \<open>assistant\<close> whose content is the placeholder text with
  the name and the id of the agent: two runs on states that agree on the name and the id
  of the agent return the same content, whatever the conversations hold and whatever
  generation configurations are passed.
\<close>

theorem generate_response_content_by_name_and_id:
  assumes "map_of (deployed_agents w1) aid = Some rt1" and "has_conversation aid cid w1"
    and "map_of (deployed_agents w2) aid = Some rt2" and "has_conversation aid cid w2"
    and "agent_name (agents w1 (agent rt1)) = agent_name (agents w2 (agent rt2))"
    and "agent_id (agents w1 (agent rt1)) = agent_id (agents w2 (agent rt2))"
  shows "\<exists>m1 m2. fst (generate_response aid cid gcfg1 w1) = Some m1
           \<and> fst (generate_response aid cid gcfg2 w2) = Some m2
           \<and> role m1 = ''assistant'' \<and> role m2 = ''assistant''
           \<and> content m1 = content m2
           \<and> content m1 = ''This is a placeholder response from agent ''
                             @ agent_name (agents w1 (agent rt1))
                             @ '' (ID: '' @ agent_id (agents w1 (agent rt1)) @ '')''"
proof -
  from generate_response_placeholder [OF assms(1,2), of gcfg1]
  obtain t1 where m1: "fst (generate_response aid cid gcfg1 w1) =
           Some \<lparr>role = ''assistant'',
                 content = ''This is a placeholder response from agent ''
                             @ agent_name (agents w1 (agent rt1))
                             @ '' (ID: '' @ agent_id (agents w1 (agent rt1)) @ '')'',
                 timestamp = Some t1\<rparr>" by blast
  from generate_response_placeholder [OF assms(3,4), of gcfg2]
  obtain t2 where m2: "fst (generate_response aid cid gcfg2 w2) =
           Some \<lparr>role = ''assistant'',
                 content = ''This is a placeholder response from agent ''
                             @ agent_name (agents w2 (agent rt2))
                             @ '' (ID: '' @ agent_id (agents w2 (agent rt2)) @ '')'',
                 timestamp = Some t2\<rparr>" by blast
  show ?thesis using m1 m2 assms(5,6) by simp
qed

lemma chatted_world_runtime:
  "map_of (deployed_agents chatted_world) ''agent-1'' =
     Some (example_runtime
       \<lparr>last_used := 31000001,
        active_conversations :=
          [(''conv-1'',
            \<lparr>messages = [\<lparr>role = ''user'', content = ''Hello'', timestamp = None\<rparr>],
             last_updated = 31000000\<rparr>)]\<rparr>)"
  by (simp add: chatted_world_def add_message_to_conversation_def dict_has_def
      has_conversation_def get_conversation_def deployed_world_def empty_world_def
      example_runtime_def utcnow_def update_agent_last_used_def Let_def)

theorem generate_response_content_by_name_and_id_witness:
  "has_conversation ''agent-1'' ''conv-1'' deployed_world
   \<and> has_conversation ''agent-1'' ''conv-1'' chatted_world
   \<and> (\<exists>m1 m2.
        fst (generate_response ''agent-1'' ''conv-1'' None deployed_world) = Some m1
      \<and> fst (generate_response ''agent-1'' ''conv-1''
               (Some [(''temperature'', JAtom ''0.2'')]) chatted_world) = Some m2
      \<and> content m1 = content m2
      \<and> content m1 = ''This is a placeholder response from agent Helper (ID: agent-1)'')"
proof -
  have rt1: "map_of (deployed_agents deployed_world) ''agent-1'' = Some example_runtime"
    by (rule deployed_world_runtime)
  have c1: "has_conversation ''agent-1'' ''conv-1'' deployed_world"
    by (simp add: has_conversation_def get_conversation_def rt1) (simp add: example_runtime_def)
  have c2: "has_conversation ''agent-1'' ''conv-1'' chatted_world"
    by (simp add: has_conversation_def get_conversation_def chatted_world_runtime)
  have objs: "agents chatted_world = agents deployed_world"
    by (simp add: chatted_world_def add_message_to_conversation_def dict_has_def
      has_conversation_def get_conversation_def deployed_world_def empty_world_def
      example_runtime_def utcnow_def update_agent_last_used_def Let_def)
  have ag: "agents deployed_world 0 = example_agent\<lparr>agent_status := DEPLOYED\<rparr>"
    by (simp add: deployed_world_def empty_world_def)
  have nm: "agent_name (agents deployed_world 0) = ''Helper''"
    and ident: "agent_id (agents deployed_world 0) = ''agent-1''"
    by (simp_all add: ag example_agent_def)
  have r: "agent example_runtime = 0" by (simp add: example_runtime_def)
  from generate_response_content_by_name_and_id [OF rt1 c1 chatted_world_runtime c2,
      of None "Some [(''temperature'', JAtom ''0.2'')]"]
  have "\<exists>m1 m2.
        fst (generate_response ''agent-1'' ''conv-1'' None deployed_world) = Some m1
      \<and> fst (generate_response ''agent-1'' ''conv-1''
               (Some [(''temperature'', JAtom ''0.2'')]) chatted_world) = Some m2
      \<and> role m1 = ''assistant'' \<and> role m2 = ''assistant''
      \<and> content m1 = content m2
      \<and> content m1 = ''This is a placeholder response from agent Helper (ID: agent-1)''"
    by (simp add: objs r nm ident)
  then show ?thesis using c1 c2 by blast
qed

subsection \<open>Cleanup of inactive agents\<close>



text \<open>
  On a registry that was filled by hand with an agent last used 31 seconds before the
  clock reading, the agent stays deployed, where the scan, given the timeout of 30
  seconds, stops it.
\<close>

lemma cleanup_inactive_agents_keeps_stale_agent:
  "map_of (deployed_agents deployed_world) ''agent-1'' = Some example_runtime
   \<and> fst (utcnow deployed_world) - last_used example_runtime = 31000000
   \<and> deployed_agents (cleanup_inactive_agents default_settings deployed_world)
       = [(''agent-1'', example_runtime)]
   \<and> get_agent_status ''agent-1'' (cleanup_inactive_agents default_settings deployed_world)
       = Some DEPLOYED
   \<and> deployed_agents
        (snd (cleanup_loop 31000000 (IntAttr 30) [''agent-1''] deployed_world)) = []"
proof -
  have gt: "total_seconds_gt_attr 31000000 (IntAttr 30) = Inr True"
    by code_simp
  have lu: "last_used example_runtime = 0" by (simp add: example_runtime_def)
  have gt': "total_seconds_gt_attr (31000000 - last_used example_runtime) (IntAttr 30) = Inr True"
    using gt by (simp add: lu del: total_seconds_gt_attr.simps)
  have loop: "cleanup_loop 31000000 (IntAttr 30) [''agent-1''] deployed_world
                = (Inr (), snd (stop_agent ''agent-1'' deployed_world))"
    by (simp add: deployed_world_runtime gt' del: total_seconds_gt_attr.simps)
  have "deployed_agents (snd (stop_agent ''agent-1'' deployed_world)) = []"
    by (simp add: stop_agent_def deployed_world_runtime Let_def)
       (simp add: deployed_world_def empty_world_def)
  then have "deployed_agents
        (snd (cleanup_loop 31000000 (IntAttr 30) [''agent-1''] deployed_world)) = []"
    by (simp only: loop snd_conv)
  then show ?thesis
    by (simp add: cleanup_inactive_agents_noop get_agent_status_def deployed_world_def
        empty_world_def example_runtime_def example_agent_def utcnow_def)
qed

section \<open>Properties of the training manager\<close>

lemma run_thread_any_type:
  "run_thread th stop st =
     run_lora_training (thread_job_id th) (thread_model_id th) (thread_dataset_id th)
       (thread_hyperparameters th) stop st"
  by (cases "target th")
     (simp_all add: run_thread_def run_qlora_training_def run_peft_training_def
        run_full_fine_tuning_def)

lemma registry_reads_raise:
  "get_training_job jid st = Inl TypeError"
  "get_model mid st = Inl TypeError"
  by (simp_all add: get_training_job_def get_model_def py_await_def)

lemma update_training_job_raises:
  "update_training_job jid status prog mets err st = (Inl TypeError, st)"
  by (simp add: update_training_job_def registry_reads_raise)

lemma start_training_job_raises:
  "start_training_job jid st = (Inl TypeError, st, None)"
  by (simp add: start_training_job_def start_training_job_try_def registry_reads_raise
      update_training_job_raises)

lemma run_lora_training_raises:
  "run_lora_training_try jid mid dsid hp stop st = (Inl TypeError, st)"
  "run_lora_training jid mid dsid hp stop st = st\<lparr>active_jobs := active_jobs st - {jid}\<rparr>"
  by (simp_all add: run_lora_training_def run_lora_training_try_def update_training_job_raises)

text \<open>
  Claim C1 at a pending job with hyperparameters, of a model that exists, with the stop
  event never set: the claim has the job run the 101 steps and end \<open>COMPLETED\<close> with the
  progress 100. \<open>start_training_job\<close> raises \<open>TypeError\<close> at its first call of the
  registry and again in its handler: it starts no thread, and the job stays \<open>PENDING\<close>
  with the progress 0. The thread target, run for the job all the same, raises at its
  first update and again in its handler: it writes no step and does not sleep.
\<close>

theorem start_training_job_raises_type_error:
  "start_training_job ''job-1'' pending_state = (Inl TypeError, pending_state, None)
   \<and> jobs pending_state ''job-1'' = Some pending_job
   \<and> job_status pending_job = PENDING \<and> progress pending_job = 0
   \<and> models pending_state (job_model_id pending_job) = Some \<lparr>model_status = MODEL_TRAINING\<rparr>
   \<and> fst (run_lora_training_try ''job-1'' ''model-1'' ''dataset-1''
             (hyperparameters pending_job) (\<lambda>n. False) pending_state) = Inl TypeError
   \<and> jobs (run_thread (thread_of_job ''job-1'' pending_job) (\<lambda>n. False) pending_state) ''job-1''
       = Some pending_job
   \<and> progress_log (run_thread (thread_of_job ''job-1'' pending_job) (\<lambda>n. False) pending_state)
       = []
   \<and> sleeps (run_thread (thread_of_job ''job-1'' pending_job) (\<lambda>n. False) pending_state) = 0"
  by (simp add: start_training_job_raises run_thread_any_type run_lora_training_raises)
     (simp add: pending_state_def pending_job_def)

section \<open>Properties of the RAG service\<close>

lemma generate_template:
  assumes "get_rag_model env mid = Some data"
  shows "generate env mid query contexts gcfg =
           Inr (''This is a simulated RAG response for the query: '' @ query
                  @ [newline, newline] @ ''Based on the retrieved contexts:'' @ [newline]
                  @ response_contexts (format_score env) 0 contexts)"
  using assms by (simp add: generate_def Let_def)











end
